theory Spec2Isabelle
  imports Complex_Main
begin

section \<open>Python values and errors\<close>

text \<open>
  The two valuation classes of the repository (\<^verbatim>\<open>models/gdcf.py\<close>, the scalar
  variant, and \<^verbatim>\<open>models/dcf_m1.py\<close>, the statement-driven variant) compute with
  Python numbers. Numbers are modelled as exact rationals: an \<^verbatim>\<open>int\<close> and a
  \<^verbatim>\<open>float\<close> are both a \<open>rat\<close>, and the rounding, overflow and the special values
  of binary floating point are outside the model. Every \<^verbatim>\<open>raise\<close> of the source and
  every native exception its arithmetic and lookups can throw is a value \<open>Inl e\<close>.
\<close>

datatype py_error =
    ValueError string
  | TypeError
  | KeyError string
  | IndexError
  | ZeroDivisionError

datatype pyval =
    PyNone
  | PyBool bool
  | PyNum rat
  | PyStr string
  | PyList "pyval list"

text \<open>\<^verbatim>\<open>isinstance(v, (int, float))\<close>; \<^verbatim>\<open>bool\<close> is a subclass of \<^verbatim>\<open>int\<close>.\<close>

fun is_number :: "pyval \<Rightarrow> bool" where
  "is_number (PyNum r) = True"
| "is_number (PyBool b) = True"
| "is_number v = False"

text \<open>The numeric value of a number (\<^verbatim>\<open>True\<close> is 1, \<^verbatim>\<open>False\<close> is 0).\<close>

fun num_of :: "pyval \<Rightarrow> rat" where
  "num_of (PyNum r) = r"
| "num_of (PyBool b) = (if b then 1 else 0)"
| "num_of v = 0"

text \<open>\<^verbatim>\<open>isinstance(v, list)\<close>.\<close>

fun is_list :: "pyval \<Rightarrow> bool" where
  "is_list (PyList vs) = True"
| "is_list v = False"

fun items_of :: "pyval \<Rightarrow> pyval list" where
  "items_of (PyList vs) = vs"
| "items_of v = []"

text \<open>Sequencing of computations that may raise.\<close>

fun bind_err :: "py_error + 'a \<Rightarrow> ('a \<Rightarrow> py_error + 'b) \<Rightarrow> py_error + 'b" where
  "bind_err (Inl e) f = Inl e"
| "bind_err (Inr x) f = f x"

text \<open>True division \<^verbatim>\<open>a / b\<close>: a zero divisor raises.\<close>

definition py_truediv :: "rat \<Rightarrow> rat \<Rightarrow> py_error + rat" where
  "py_truediv a b = (if b = 0 then Inl ZeroDivisionError else Inr (a / b))"

text \<open>\<^verbatim>\<open>xs[-1]\<close>: the last element; an empty list raises.\<close>

definition py_last :: "'a list \<Rightarrow> py_error + 'a" where
  "py_last xs = (case xs of [] \<Rightarrow> Inl IndexError | _ \<Rightarrow> Inr (last xs))"

section \<open>The scalar variant (\<^verbatim>\<open>gdcf.py\<close>)\<close>

text \<open>
  The fields of class \<^verbatim>\<open>DCF\<close> of \<^verbatim>\<open>gdcf.py\<close>, without the leading underscore
  of the attribute names.
\<close>

record gdcf =
  current_fcf :: rat
  growth_rates :: "rat list"
  terminal_growth_rate :: rat
  wacc :: rat
  cash_and_equivalents :: rat
  total_debt :: rat
  shares_outstanding :: rat

text \<open>\<^verbatim>\<open>DCF.__init__\<close>: the default parameters.\<close>

definition gdcf_init :: gdcf where
  "gdcf_init =
     \<lparr>current_fcf = 0, growth_rates = [], terminal_growth_rate = 2 / 100, wacc = 10 / 100,
      cash_and_equivalents = 0, total_debt = 0, shares_outstanding = 1\<rparr>"

subsection \<open>Setters\<close>

definition set_current_fcf :: "pyval \<Rightarrow> gdcf \<Rightarrow> py_error + gdcf" where
  "set_current_fcf fcf self =
     (if \<not> is_number fcf \<or> num_of fcf < 0
      then Inl (ValueError ''Current FCF must be a non-negative number.'')
      else Inr (self\<lparr>current_fcf := num_of fcf\<rparr>))"

definition set_growth_rates :: "pyval \<Rightarrow> gdcf \<Rightarrow> py_error + gdcf" where
  "set_growth_rates rates self =
     (if \<not> is_list rates \<or> \<not> list_all is_number (items_of rates)
      then Inl (ValueError ''Growth rates must be a list of numbers.'')
      else Inr (self\<lparr>growth_rates := map num_of (items_of rates)\<rparr>))"

definition set_terminal_growth_rate :: "pyval \<Rightarrow> gdcf \<Rightarrow> py_error + gdcf" where
  "set_terminal_growth_rate rate self =
     (if \<not> is_number rate
      then Inl (ValueError ''Terminal growth rate must be a number.'')
      else Inr (self\<lparr>terminal_growth_rate := num_of rate\<rparr>))"

definition set_wacc :: "pyval \<Rightarrow> gdcf \<Rightarrow> py_error + gdcf" where
  "set_wacc w self =
     (if \<not> is_number w \<or> \<not> (0 < num_of w \<and> num_of w < 1)
      then Inl (ValueError ''WACC must be a number between 0 and 1 (exclusive).'')
      else Inr (self\<lparr>wacc := num_of w\<rparr>))"

definition set_cash_and_equivalents :: "pyval \<Rightarrow> gdcf \<Rightarrow> py_error + gdcf" where
  "set_cash_and_equivalents cash self =
     (if \<not> is_number cash \<or> num_of cash < 0
      then Inl (ValueError ''Cash and equivalents must be a non-negative number.'')
      else Inr (self\<lparr>cash_and_equivalents := num_of cash\<rparr>))"

definition set_total_debt :: "pyval \<Rightarrow> gdcf \<Rightarrow> py_error + gdcf" where
  "set_total_debt debt self =
     (if \<not> is_number debt \<or> num_of debt < 0
      then Inl (ValueError ''Total debt must be a non-negative number.'')
      else Inr (self\<lparr>total_debt := num_of debt\<rparr>))"

definition set_shares_outstanding :: "pyval \<Rightarrow> gdcf \<Rightarrow> py_error + gdcf" where
  "set_shares_outstanding shares self =
     (if \<not> is_number shares \<or> num_of shares \<le> 0
      then Inl (ValueError ''Shares outstanding must be a positive number.'')
      else Inr (self\<lparr>shares_outstanding := num_of shares\<rparr>))"

subsection \<open>The calculation\<close>

text \<open>The dictionary that \<^verbatim>\<open>calc\<close> returns, one field per key.\<close>

record valuation =
  projected_fcfs :: "rat list"
  present_value_of_fcfs :: rat
  terminal_value :: rat
  present_value_of_terminal_value :: rat
  enterprise_value :: rat
  equity_value :: rat
  intrinsic_value_per_share :: rat

text \<open>\<^verbatim>\<open>calc\<close> returns either the integer 0 or the dictionary.\<close>

datatype calc_result = ReturnZero | ReturnDict valuation

text \<open>
  Step 1 of \<^verbatim>\<open>calc\<close>, the loop over \<^verbatim>\<open>enumerate(self._growth_rates)\<close>: the
  arguments are the list built so far, \<^verbatim>\<open>last_fcf\<close> and the growth rates still to
  be visited.
\<close>

fun project_loop :: "rat list \<Rightarrow> rat \<Rightarrow> rat list \<Rightarrow> rat list" where
  "project_loop projected last_fcf [] = projected"
| "project_loop projected last_fcf (growth_rate # rest) =
     (let next_fcf = last_fcf * (1 + growth_rate)
      in project_loop (projected @ [next_fcf]) next_fcf rest)"

text \<open>
  Step 2, the loop over \<^verbatim>\<open>enumerate(projected_fcfs)\<close>: the arguments are the
  discount rate, the running \<^verbatim>\<open>present_value_of_fcfs\<close>, the index \<open>i\<close> and the
  flows still to be visited.
\<close>

fun discount_loop :: "rat \<Rightarrow> rat \<Rightarrow> nat \<Rightarrow> rat list \<Rightarrow> py_error + rat" where
  "discount_loop w pv i [] = Inr pv"
| "discount_loop w pv i (fcf # rest) =
     (let discount_factor = (1 + w) ^ (i + 1)
      in bind_err (py_truediv fcf discount_factor)
           (\<lambda>q. discount_loop w (pv + q) (i + 1) rest))"

definition fcf_warning :: string where
  "fcf_warning = ''Warning: Current FCF is zero or negative. DCF might not be appropriate or projections need careful review.''"

definition wacc_error :: py_error where
  "wacc_error = ValueError ''WACC must be greater than the terminal growth rate for a stable terminal value calculation.''"

definition empty_rates_error :: py_error where
  "empty_rates_error = ValueError ''Growth rates list cannot be empty. Please set growth rates for projection period.''"

text \<open>Steps 1 to 7 of \<^verbatim>\<open>calc\<close>, after its three leading checks.\<close>

definition calc_steps :: "gdcf \<Rightarrow> py_error + calc_result" where
  "calc_steps self =
     (let projected = project_loop [] (current_fcf self) (growth_rates self)
      in bind_err (discount_loop (wacc self) 0 0 projected) (\<lambda>pv_fcfs.
         bind_err (py_last projected) (\<lambda>last_projected_fcf.
         bind_err (py_truediv (last_projected_fcf * (1 + terminal_growth_rate self))
                     (wacc self - terminal_growth_rate self)) (\<lambda>tv.
         let discount_factor_tv = (1 + wacc self) ^ length (growth_rates self)
         in bind_err (py_truediv tv discount_factor_tv) (\<lambda>pv_tv.
         let ev = pv_fcfs + pv_tv;
             eq = ev + cash_and_equivalents self - total_debt self
         in if shares_outstanding self \<le> 0 then Inr ReturnZero
            else bind_err (py_truediv eq (shares_outstanding self)) (\<lambda>per_share.
              Inr (ReturnDict
                \<lparr>projected_fcfs = projected,
                 present_value_of_fcfs = pv_fcfs,
                 terminal_value = tv,
                 present_value_of_terminal_value = pv_tv,
                 enterprise_value = ev,
                 equity_value = eq,
                 intrinsic_value_per_share = per_share\<rparr>)))))))"

text \<open>
  \<^verbatim>\<open>DCF.calc\<close>. The result pairs the lines printed (the warning, if any) with
  the value returned; a raise is \<open>Inl\<close>, and nothing is printed before the two
  raising checks.
\<close>

definition calc :: "gdcf \<Rightarrow> py_error + (string list \<times> calc_result)" where
  "calc self =
     (if wacc self \<le> terminal_growth_rate self then Inl wacc_error
      else if growth_rates self = [] then Inl empty_rates_error
      else let printed = (if current_fcf self \<le> 0 then [fcf_warning] else [])
           in bind_err (calc_steps self) (\<lambda>r. Inr (printed, r)))"

subsection \<open>The example of the source\<close>

text \<open>
  The first example of the \<^verbatim>\<open>__main__\<close> block of \<^verbatim>\<open>gdcf.py\<close>: the chain of
  setters on a fresh object, and the object it builds.
\<close>

definition scenario_A :: "py_error + gdcf" where
  "scenario_A =
     bind_err (set_current_fcf (PyNum 100) gdcf_init) (\<lambda>d1.
     bind_err (set_growth_rates
                 (PyList [PyNum (15 / 100), PyNum (10 / 100), PyNum (8 / 100), PyNum (5 / 100),
                          PyNum (3 / 100)]) d1) (\<lambda>d2.
     bind_err (set_terminal_growth_rate (PyNum (2 / 100)) d2) (\<lambda>d3.
     bind_err (set_wacc (PyNum (9 / 100)) d3) (\<lambda>d4.
     bind_err (set_cash_and_equivalents (PyNum 50) d4) (\<lambda>d5.
     bind_err (set_total_debt (PyNum 20) d5) (\<lambda>d6.
     set_shares_outstanding (PyNum 100) d6))))))"

definition gdcf_A :: gdcf where
  "gdcf_A =
     \<lparr>current_fcf = 100, growth_rates = [15 / 100, 10 / 100, 8 / 100, 5 / 100, 3 / 100],
      terminal_growth_rate = 2 / 100, wacc = 9 / 100, cash_and_equivalents = 50,
      total_debt = 20, shares_outstanding = 100\<rparr>"

text \<open>The same object with the share count overwritten, as a direct assignment to the field does.\<close>

definition gdcf_zero_shares :: gdcf where
  "gdcf_zero_shares = gdcf_A\<lparr>shares_outstanding := 0\<rparr>"

text \<open>
  The example of the source with the current flow overwritten by 0, and with the discount
  rate set equal to the terminal growth rate.
\<close>

definition gdcf_zero_fcf :: gdcf where
  "gdcf_zero_fcf = gdcf_A\<lparr>current_fcf := 0\<rparr>"

definition gdcf_equal_rates :: gdcf where
  "gdcf_equal_rates = gdcf_A\<lparr>wacc := 2 / 100\<rparr>"

section \<open>The statement-driven variant (\<^verbatim>\<open>dcf_m1.py\<close>)\<close>

text \<open>
  A statement is a list of yearly records, most recent first; a record is a dictionary
  from the names of line items to values.
\<close>

type_synonym statement_record = "string \<rightharpoonup> pyval"

text \<open>
  What the function takes from Python itself: \<^verbatim>\<open>input\<close> (the manual-input
  provider, from the prompt to the line entered), the parsing of a string by
  \<^verbatim>\<open>float\<close> and by \<^verbatim>\<open>int\<close> (\<open>None\<close> where Python raises
  \<^verbatim>\<open>ValueError\<close>), and the text that formatting gives a value that is not a string.
\<close>

record py_env =
  input_fn :: "string \<Rightarrow> string"
  float_of_str :: "string \<Rightarrow> rat option"
  int_of_str :: "string \<Rightarrow> int option"
  str_of :: "pyval \<Rightarrow> string"

text \<open>\<^verbatim>\<open>xs[i]\<close> for an index \<open>i \<ge> 0\<close>, and \<^verbatim>\<open>d[k]\<close>.\<close>

definition py_index :: "'a list \<Rightarrow> nat \<Rightarrow> py_error + 'a" where
  "py_index xs i = (if i < length xs then Inr (xs ! i) else Inl IndexError)"

definition py_getitem :: "statement_record \<Rightarrow> string \<Rightarrow> py_error + pyval" where
  "py_getitem d k = (case d k of None \<Rightarrow> Inl (KeyError k) | Some v \<Rightarrow> Inr v)"

text \<open>The truth value of a value, as \<^verbatim>\<open>if v:\<close> tests it.\<close>

fun truthy :: "pyval \<Rightarrow> bool" where
  "truthy PyNone = False"
| "truthy (PyBool b) = b"
| "truthy (PyNum r) = (r \<noteq> 0)"
| "truthy (PyStr s) = (s \<noteq> [])"
| "truthy (PyList vs) = (vs \<noteq> [])"

text \<open>\<^verbatim>\<open>float(v)\<close>.\<close>

fun py_float :: "py_env \<Rightarrow> pyval \<Rightarrow> py_error + rat" where
  "py_float env (PyNum r) = Inr r"
| "py_float env (PyBool b) = Inr (if b then 1 else 0)"
| "py_float env (PyStr s) =
     (case float_of_str env s of
        None \<Rightarrow> Inl (ValueError ''could not convert string to float'')
      | Some r \<Rightarrow> Inr r)"
| "py_float env v = Inl TypeError"

text \<open>The text of a value inside a formatted string.\<close>

fun py_format :: "py_env \<Rightarrow> pyval \<Rightarrow> string" where
  "py_format env (PyStr s) = s"
| "py_format env v = str_of env v"

text \<open>\<^verbatim>\<open>int(date[0:4])\<close>, which the table line of every forecast year computes.\<close>

fun year_of :: "py_env \<Rightarrow> pyval \<Rightarrow> py_error + int" where
  "year_of env (PyStr s) =
     (case int_of_str env (take 4 s) of
        None \<Rightarrow> Inl (ValueError ''invalid literal for int()'')
      | Some y \<Rightarrow> Inr y)"
| "year_of env v = Inl TypeError"

text \<open>\<^verbatim>\<open>float(statement[i][item])\<close>.\<close>

definition item_float :: "py_env \<Rightarrow> statement_record list \<Rightarrow> nat \<Rightarrow> string \<Rightarrow> py_error + rat" where
  "item_float env statement i item =
     bind_err (py_index statement i) (\<lambda>r. bind_err (py_getitem r item) (py_float env))"

text \<open>\<^verbatim>\<open>DCF._ulFCF\<close>.\<close>

definition ulFCF :: "rat \<Rightarrow> rat \<Rightarrow> rat \<Rightarrow> rat \<Rightarrow> rat \<Rightarrow> rat" where
  "ulFCF ebit tax_rate non_cash_charges cwc cap_ex =
     ebit * (1 - tax_rate) + non_cash_charges + cwc + cap_ex"

text \<open>
  Lines 92 to 95 of \<^verbatim>\<open>_enterprise_value_calculation\<close>: the base-year EBIT. The
  result pairs the prompts handed to \<^verbatim>\<open>input\<close>, in order, with the value or the
  exception.
\<close>

definition ebit_prompt :: "py_env \<Rightarrow> pyval \<Rightarrow> string" where
  "ebit_prompt env date = ''EBIT missing. Enter EBIT on '' @ py_format env date @ '' or skip: ''"

definition read_ebit :: "py_env \<Rightarrow> statement_record list \<Rightarrow> string list \<times> (py_error + rat)" where
  "read_ebit env income_statement =
     (case bind_err (py_index income_statement 0) (\<lambda>r. py_getitem r ''EBIT'') of
        Inl e \<Rightarrow> ([], Inl e)
      | Inr v \<Rightarrow>
          if truthy v then ([], py_float env v)
          else (case bind_err (py_index income_statement 0) (\<lambda>r. py_getitem r ''date'') of
                  Inl e \<Rightarrow> ([], Inl e)
                | Inr date \<Rightarrow>
                    ([ebit_prompt env date],
                     py_float env (PyStr (input_fn env (ebit_prompt env date))))))"

text \<open>The running quantities of the forecast loop and the list \<^verbatim>\<open>flows\<close>.\<close>

record forecast =
  ebit :: rat
  non_cash_charges :: rat
  cwc :: rat
  cap_ex :: rat
  flows :: "rat list"

text \<open>
  The body of the loop of lines 108 to 124 for the year \<open>yr\<close>. The literal
  \<^verbatim>\<open>0.7\<close> is the rational 7/10. The table line is printed after the flow is
  appended; of it the model keeps the one step that can raise.
\<close>

definition forecast_year ::
  "py_env \<Rightarrow> pyval \<Rightarrow> rat \<Rightarrow> rat \<Rightarrow> rat \<Rightarrow> rat \<Rightarrow> nat \<Rightarrow> forecast \<Rightarrow> py_error + forecast" where
  "forecast_year env date tax_rate discount earnings_growth_rate cap_ex_growth_rate yr st =
     (let ebit' = ebit st * (1 + of_nat yr * earnings_growth_rate);
          non_cash_charges' = non_cash_charges st * (1 + of_nat yr * earnings_growth_rate);
          cwc' = cwc st * (7 / 10);
          cap_ex' = cap_ex st * (1 + of_nat yr * cap_ex_growth_rate);
          flow = ulFCF ebit' tax_rate non_cash_charges' cwc' cap_ex'
      in bind_err (py_truediv flow ((1 + discount) ^ yr)) (\<lambda>PV_flow.
         bind_err (year_of env date) (\<lambda>y.
           Inr \<lparr>ebit = ebit', non_cash_charges = non_cash_charges', cwc = cwc',
                cap_ex = cap_ex', flows = flows st @ [PV_flow]\<rparr>)))"

text \<open>The loop over \<^verbatim>\<open>range(1, period + 1)\<close>, given the years still to run.\<close>

fun forecast_loop ::
  "py_env \<Rightarrow> pyval \<Rightarrow> rat \<Rightarrow> rat \<Rightarrow> rat \<Rightarrow> rat \<Rightarrow> forecast \<Rightarrow> nat list \<Rightarrow> py_error + forecast" where
  "forecast_loop env date tax_rate discount egr cgr st [] = Inr st"
| "forecast_loop env date tax_rate discount egr cgr st (yr # rest) =
     bind_err (forecast_year env date tax_rate discount egr cgr yr st)
       (\<lambda>st'. forecast_loop env date tax_rate discount egr cgr st' rest)"

text \<open>\<^verbatim>\<open>range(1, period + 1)\<close>: empty when \<open>period < 1\<close>.\<close>

definition forecast_years :: "int \<Rightarrow> nat list" where
  "forecast_years period = [1..<nat period + 1]"

text \<open>
  Lines 128 and 129: the terminal value, from the last element of \<^verbatim>\<open>flows\<close>.
\<close>

definition terminal_value_of_flows :: "rat list \<Rightarrow> rat \<Rightarrow> rat \<Rightarrow> py_error + rat" where
  "terminal_value_of_flows fl discount perpetual_growth_rate =
     bind_err (py_last fl) (\<lambda>final_flow.
       let final_cashflow = final_flow * (1 + perpetual_growth_rate)
       in py_truediv final_cashflow (discount - perpetual_growth_rate))"

text \<open>
  Lines 126 to 132: the roll-up from \<^verbatim>\<open>flows\<close>. The exponent \<open>1 + period\<close> is
  reached only with a non-empty \<^verbatim>\<open>flows\<close>, that is with \<open>period \<ge> 1\<close>.
\<close>

definition roll_up :: "rat list \<Rightarrow> int \<Rightarrow> rat \<Rightarrow> rat \<Rightarrow> py_error + rat" where
  "roll_up fl period discount perpetual_growth_rate =
     (let NPV_FCF = sum_list fl
      in bind_err (terminal_value_of_flows fl discount perpetual_growth_rate) (\<lambda>TV.
         bind_err (py_truediv TV ((1 + discount) ^ nat (1 + period))) (\<lambda>NPV_TV.
           Inr (NPV_TV + NPV_FCF))))"

text \<open>
  Lines 96 to 101 and the date that the heading of line 106 reads, in the order in which
  the source evaluates them: the tax rate, depreciation and amortisation, the change in
  working capital, capital expenditure, the date.
\<close>

definition base_year_inputs ::
  "py_env \<Rightarrow> statement_record list \<Rightarrow> statement_record list \<Rightarrow> statement_record list \<Rightarrow>
   py_error + (rat \<times> rat \<times> rat \<times> rat \<times> pyval)" where
  "base_year_inputs env income_statement cashflow_statement balance_statement =
     bind_err (item_float env income_statement 0 ''Income Tax Expense'') (\<lambda>tax.
     bind_err (item_float env income_statement 0 ''Earnings before Tax'') (\<lambda>ebt.
     bind_err (py_truediv tax ebt) (\<lambda>tax_rate.
     bind_err (item_float env cashflow_statement 0 ''Depreciation & Amortization'') (\<lambda>ncc0.
     bind_err (item_float env balance_statement 0 ''Total assets'') (\<lambda>ta0.
     bind_err (item_float env balance_statement 0 ''Total non-current assets'') (\<lambda>tnca0.
     bind_err (item_float env balance_statement 1 ''Total assets'') (\<lambda>ta1.
     bind_err (item_float env balance_statement 1 ''Total non-current assets'') (\<lambda>tnca1.
     let cwc0 = (ta0 - tnca0) - (ta1 - tnca1)
     in bind_err (item_float env cashflow_statement 0 ''Capital Expenditure'') (\<lambda>cap_ex0.
     bind_err (bind_err (py_index income_statement 0) (\<lambda>r. py_getitem r ''date'')) (\<lambda>date.
       Inr (tax_rate, ncc0, cwc0, cap_ex0, date)))))))))))"

text \<open>
  Lines 96 to 132, what the function computes once it has the base-year EBIT: the other
  base-year inputs, the forecast loop from an empty \<^verbatim>\<open>flows\<close>, the roll-up.
\<close>

definition value_from_ebit ::
  "py_env \<Rightarrow> statement_record list \<Rightarrow> statement_record list \<Rightarrow> statement_record list \<Rightarrow>
   int \<Rightarrow> rat \<Rightarrow> rat \<Rightarrow> rat \<Rightarrow> rat \<Rightarrow> rat \<Rightarrow> py_error + rat" where
  "value_from_ebit env income_statement cashflow_statement balance_statement
     period discount_rate earnings_growth_rate cap_ex_growth_rate perpetual_growth_rate ebit0 =
     bind_err (base_year_inputs env income_statement cashflow_statement balance_statement)
       (\<lambda>(tax_rate, ncc0, cwc0, cap_ex0, date).
     bind_err (forecast_loop env date tax_rate discount_rate earnings_growth_rate
                 cap_ex_growth_rate
                 \<lparr>ebit = ebit0, non_cash_charges = ncc0, cwc = cwc0, cap_ex = cap_ex0,
                  flows = []\<rparr>
                 (forecast_years period)) (\<lambda>st.
     roll_up (flows st) period discount_rate perpetual_growth_rate))"

text \<open>
  \<^verbatim>\<open>DCF._enterprise_value_calculation\<close>. The result pairs the prompts handed to
  \<^verbatim>\<open>input\<close> with the value returned or the exception.
\<close>

definition enterprise_value_calculation ::
  "py_env \<Rightarrow> statement_record list \<Rightarrow> statement_record list \<Rightarrow> statement_record list \<Rightarrow>
   int \<Rightarrow> rat \<Rightarrow> rat \<Rightarrow> rat \<Rightarrow> rat \<Rightarrow> string list \<times> (py_error + rat)" where
  "enterprise_value_calculation env income_statement cashflow_statement balance_statement
     period discount_rate earnings_growth_rate cap_ex_growth_rate perpetual_growth_rate =
     (case read_ebit env income_statement of (prompts, r) \<Rightarrow>
       (prompts,
        bind_err r
          (value_from_ebit env income_statement cashflow_statement balance_statement
             period discount_rate earnings_growth_rate cap_ex_growth_rate
             perpetual_growth_rate)))"

subsection \<open>An example of statements\<close>

text \<open>
  A Python environment in which only the string \<^verbatim>\<open>2020\<close> parses as an integer
  and only \<^verbatim>\<open>120\<close> as a float, and in which the user types \<^verbatim>\<open>120\<close> at every
  prompt; and one year of statements with its prior-year balance sheet.
\<close>

definition env_ex :: py_env where
  "env_ex =
     \<lparr>input_fn = (\<lambda>prompt. ''120''),
      float_of_str = (\<lambda>s. if s = ''120'' then Some 120 else None),
      int_of_str = (\<lambda>s. if s = ''2020'' then Some 2020 else None),
      str_of = (\<lambda>v. ''?'')\<rparr>"

definition income_ex :: "statement_record list" where
  "income_ex =
     [[''date'' \<mapsto> PyStr ''2020-12-31'', ''EBIT'' \<mapsto> PyNum 100,
       ''Income Tax Expense'' \<mapsto> PyNum 20, ''Earnings before Tax'' \<mapsto> PyNum 100]]"

text \<open>The same record with a null EBIT, and with no EBIT item at all.\<close>

definition income_null_ebit :: "statement_record list" where
  "income_null_ebit =
     [[''date'' \<mapsto> PyStr ''2020-12-31'', ''EBIT'' \<mapsto> PyNone,
       ''Income Tax Expense'' \<mapsto> PyNum 20, ''Earnings before Tax'' \<mapsto> PyNum 100]]"

definition income_no_ebit :: "statement_record list" where
  "income_no_ebit =
     [[''date'' \<mapsto> PyStr ''2020-12-31'',
       ''Income Tax Expense'' \<mapsto> PyNum 20, ''Earnings before Tax'' \<mapsto> PyNum 100]]"

definition cashflow_ex :: "statement_record list" where
  "cashflow_ex =
     [[''Depreciation & Amortization'' \<mapsto> PyNum 10, ''Capital Expenditure'' \<mapsto> PyNum (- 10)]]"

definition balance_ex :: "statement_record list" where
  "balance_ex =
     [[''Total assets'' \<mapsto> PyNum 50, ''Total non-current assets'' \<mapsto> PyNum 30],
      [''Total assets'' \<mapsto> PyNum 40, ''Total non-current assets'' \<mapsto> PyNum 30]]"

text \<open>
  The running quantities before the first forecast year of the example.
\<close>

definition st_ex :: forecast where
  "st_ex = \<lparr>ebit = 100, non_cash_charges = 10, cwc = 10, cap_ex = - 10, flows = []\<rparr>"

text \<open>
  The terminal value in the words of the specification, for comparison with the source:
  the final year's flow times one plus the growth rate, over the discount rate minus the
  growth rate.
\<close>

definition spec_terminal_value :: "rat \<Rightarrow> rat \<Rightarrow> rat \<Rightarrow> rat" where
  "spec_terminal_value final_year_flow growth discount =
     final_year_flow * (1 + growth) / (discount - growth)"

section \<open>Properties of the scalar variant\<close>

subsection \<open>The two loops\<close>

text \<open>
  The projection loop appends to the list it was given, so it is enough to know what it
  builds from the empty list; there each element is the previous one (or the starting
  flow) times one plus the year's growth rate.
\<close>

lemma project_loop_acc:
  "project_loop acc l gs = acc @ project_loop [] l gs"
proof (induction gs arbitrary: acc l)
  case Nil
  show ?case by simp
next
  case (Cons g gs)
  have "project_loop acc l (g # gs) = project_loop (acc @ [l * (1 + g)]) (l * (1 + g)) gs"
    by (simp add: Let_def)
  also have "\<dots> = (acc @ [l * (1 + g)]) @ project_loop [] (l * (1 + g)) gs"
    by (rule Cons.IH)
  also have "\<dots> = acc @ project_loop [l * (1 + g)] (l * (1 + g)) gs"
    using Cons.IH [of "[l * (1 + g)]" "l * (1 + g)"] by simp
  also have "\<dots> = acc @ project_loop [] l (g # gs)"
    by (simp add: Let_def)
  finally show ?case .
qed

lemma project_loop_Cons:
  "project_loop [] l (g # gs) = (l * (1 + g)) # project_loop [] (l * (1 + g)) gs"
  using project_loop_acc [of "[l * (1 + g)]" "l * (1 + g)" gs] by (simp add: Let_def)

lemma length_project_loop: "length (project_loop [] l gs) = length gs"
  by (induction gs arbitrary: l) (simp_all add: project_loop_Cons del: project_loop.simps(2))

lemma project_loop_nth:
  "i < length gs \<Longrightarrow>
   project_loop [] l gs ! i = (if i = 0 then l else project_loop [] l gs ! (i - 1)) * (1 + gs ! i)"
proof (induction gs arbitrary: l i)
  case Nil
  then show ?case by simp
next
  case (Cons g gs)
  show ?case
  proof (cases i)
    case 0
    then show ?thesis by (simp add: project_loop_Cons del: project_loop.simps(2))
  next
    case (Suc j)
    with Cons.prems have j: "j < length gs" by simp
    show ?thesis
      using Cons.IH [OF j, of "l * (1 + g)"] Suc
      by (cases j) (simp_all add: project_loop_Cons del: project_loop.simps(2))
  qed
qed

lemma discount_loop_ok:
  "w \<noteq> - 1 \<Longrightarrow>
   discount_loop w pv i fs = Inr (pv + (\<Sum>k<length fs. fs ! k / (1 + w) ^ (i + k + 1)))"
proof (induction fs arbitrary: pv i)
  case Nil
  show ?case by simp
next
  case (Cons f fs)
  from Cons.prems have nz: "(1 + w) ^ (i + 1) \<noteq> 0"
    by (simp add: add_eq_0_iff)
  have "discount_loop w pv i (f # fs) = discount_loop w (pv + f / (1 + w) ^ (i + 1)) (i + 1) fs"
    using nz by (simp add: py_truediv_def Let_def)
  also have "\<dots> = Inr (pv + f / (1 + w) ^ (i + 1) + (\<Sum>k<length fs. fs ! k / (1 + w) ^ (i + 1 + k + 1)))"
    by (rule Cons.IH [OF Cons.prems])
  also have "pv + f / (1 + w) ^ (i + 1) + (\<Sum>k<length fs. fs ! k / (1 + w) ^ (i + 1 + k + 1))
      = pv + (\<Sum>k<length (f # fs). (f # fs) ! k / (1 + w) ^ (i + k + 1))"
    by (simp add: sum.lessThan_Suc_shift del: sum.lessThan_Suc)
  finally show ?case .
qed

subsection \<open>The value of the calculation\<close>

text \<open>
  Once the two leading checks have passed and \<open>1 + wacc\<close> is not zero, no division of
  \<^verbatim>\<open>calc\<close> can raise and the last projected flow exists; the steps then compute
  the following.
\<close>

lemma project_loop_nonempty: "gs \<noteq> [] \<Longrightarrow> project_loop [] l gs \<noteq> []"
  using length_project_loop [of l gs] by auto

lemma py_last_project_loop:
  "gs \<noteq> [] \<Longrightarrow> py_last (project_loop [] l gs) = Inr (last (project_loop [] l gs))"
  using project_loop_nonempty [of gs l] by (simp add: py_last_def split: list.splits)

lemma calc_steps_value:
  assumes w: "wacc d \<noteq> - 1" and g: "wacc d \<noteq> terminal_growth_rate d"
    and gs: "growth_rates d \<noteq> []"
  shows "calc_steps d =
    (let projected = project_loop [] (current_fcf d) (growth_rates d);
         pv_fcfs = (\<Sum>i<length projected. projected ! i / (1 + wacc d) ^ (i + 1));
         tv = last projected * (1 + terminal_growth_rate d) / (wacc d - terminal_growth_rate d);
         pv_tv = tv / (1 + wacc d) ^ length (growth_rates d);
         ev = pv_fcfs + pv_tv;
         eq = ev + cash_and_equivalents d - total_debt d
     in if shares_outstanding d \<le> 0 then Inr ReturnZero
        else Inr (ReturnDict
          \<lparr>projected_fcfs = projected, present_value_of_fcfs = pv_fcfs, terminal_value = tv,
           present_value_of_terminal_value = pv_tv, enterprise_value = ev, equity_value = eq,
           intrinsic_value_per_share = eq / shares_outstanding d\<rparr>))"
proof -
  have nz: "(1 + wacc d) ^ length (growth_rates d) \<noteq> 0"
    using w by (simp add: add_eq_0_iff)
  have dl: "discount_loop (wacc d) 0 0 (project_loop [] (current_fcf d) (growth_rates d)) =
      Inr (\<Sum>i<length (project_loop [] (current_fcf d) (growth_rates d)).
             project_loop [] (current_fcf d) (growth_rates d) ! i / (1 + wacc d) ^ (i + 1))"
    using discount_loop_ok [OF w, of 0 0] by simp
  show ?thesis
    unfolding calc_steps_def Let_def
    using nz g by (simp add: dl py_last_project_loop [OF gs] py_truediv_def)
qed

lemma scenario_A_setters: "scenario_A = Inr gdcf_A"
  by (simp add: scenario_A_def gdcf_A_def gdcf_init_def set_current_fcf_def set_growth_rates_def
      set_terminal_growth_rate_def set_wacc_def set_cash_and_equivalents_def set_total_debt_def
      set_shares_outstanding_def)

lemma project_A:
  "project_loop [] (current_fcf gdcf_A) (growth_rates gdcf_A) =
     [115, 253 / 2, 6831 / 50, 143451 / 1000, 14775453 / 100000]"
  by (simp add: gdcf_A_def Let_def)

lemma calc_A:
  "calc gdcf_A = Inr ([], ReturnDict
       \<lparr>projected_fcfs = [115, 253 / 2, 6831 / 50, 143451 / 1000, 14775453 / 100000],
        present_value_of_fcfs = 7925873956500 / 15386239549,
        terminal_value = 107649729 / 50000,
        present_value_of_terminal_value = 21529945800000 / 15386239549,
        enterprise_value = 270236878500 / 141158161,
        equity_value = 274471623330 / 141158161,
        intrinsic_value_per_share = 27447162333 / 1411581610\<rparr>)"
proof -
  have w: "wacc gdcf_A \<noteq> - 1" and g: "wacc gdcf_A \<noteq> terminal_growth_rate gdcf_A"
    and gs: "growth_rates gdcf_A \<noteq> []"
    by (simp_all add: gdcf_A_def)
  have steps: "calc_steps gdcf_A = Inr (ReturnDict
       \<lparr>projected_fcfs = [115, 253 / 2, 6831 / 50, 143451 / 1000, 14775453 / 100000],
        present_value_of_fcfs = 7925873956500 / 15386239549,
        terminal_value = 107649729 / 50000,
        present_value_of_terminal_value = 21529945800000 / 15386239549,
        enterprise_value = 270236878500 / 141158161,
        equity_value = 274471623330 / 141158161,
        intrinsic_value_per_share = 27447162333 / 1411581610\<rparr>)"
    unfolding calc_steps_value [OF w g gs] project_A Let_def
    by (simp add: gdcf_A_def lessThan_Suc eval_nat_numeral)
  show ?thesis
    unfolding calc_def steps by (simp add: gdcf_A_def)
qed

subsection \<open>Claims about the scalar variant\<close>

text \<open>
  Claim C3. In the scalar variant, for a non-empty list of growth rates of length \<open>N\<close>
  (the discount rate above the terminal growth rate and not \<open>-1\<close>, a positive share
  count), the calculation returns the dictionary; its projected flows are \<open>N\<close>, the
  first is the current flow times one plus the first growth rate, each later one is its
  predecessor times one plus its own growth rate, and the present value of the flows is
  the sum over the indices \<open>i\<close> of the flow at \<open>i\<close> divided by
  \<open>(1 + wacc) ^ (i + 1)\<close>.
\<close>

theorem scalar_projected_sequence:
  assumes "terminal_growth_rate d < wacc d" and "growth_rates d \<noteq> []"
    and "wacc d \<noteq> - 1" and "0 < shares_outstanding d"
  shows "\<exists>printed v. calc d = Inr (printed, ReturnDict v)
      \<and> length (projected_fcfs v) = length (growth_rates d)
      \<and> projected_fcfs v ! 0 = current_fcf d * (1 + growth_rates d ! 0)
      \<and> (\<forall>i. 1 \<le> i \<and> i < length (growth_rates d) \<longrightarrow>
             projected_fcfs v ! i = projected_fcfs v ! (i - 1) * (1 + growth_rates d ! i))
      \<and> present_value_of_fcfs v =
          (\<Sum>i<length (growth_rates d). projected_fcfs v ! i / (1 + wacc d) ^ (i + 1))"
proof -
  let ?p = "project_loop [] (current_fcf d) (growth_rates d)"
  from assms have g: "wacc d \<noteq> terminal_growth_rate d" and pos: "0 < length (growth_rates d)"
    by simp_all
  have first: "?p ! 0 = current_fcf d * (1 + growth_rates d ! 0)"
    using project_loop_nth [OF pos, of "current_fcf d"] by simp
  have later: "?p ! i = ?p ! (i - 1) * (1 + growth_rates d ! i)"
    if "1 \<le> i" and "i < length (growth_rates d)" for i
    using project_loop_nth [OF that(2), of "current_fcf d"] that(1) by simp
  show ?thesis
    using assms first later
    by (simp add: calc_def calc_steps_value [OF assms(3) g assms(2)] Let_def
        length_project_loop)
qed

text \<open>
  Claim C3 at the example of the source.
\<close>

theorem scalar_projected_sequence_witness:
  "terminal_growth_rate gdcf_A < wacc gdcf_A \<and> growth_rates gdcf_A \<noteq> []
   \<and> wacc gdcf_A \<noteq> - 1 \<and> 0 < shares_outstanding gdcf_A
   \<and> (\<exists>printed v. calc gdcf_A = Inr (printed, ReturnDict v)
      \<and> length (projected_fcfs v) = length (growth_rates gdcf_A)
      \<and> projected_fcfs v ! 0 = current_fcf gdcf_A * (1 + growth_rates gdcf_A ! 0)
      \<and> (\<forall>i. 1 \<le> i \<and> i < length (growth_rates gdcf_A) \<longrightarrow>
             projected_fcfs v ! i = projected_fcfs v ! (i - 1) * (1 + growth_rates gdcf_A ! i))
      \<and> present_value_of_fcfs v =
          (\<Sum>i<length (growth_rates gdcf_A).
              projected_fcfs v ! i / (1 + wacc gdcf_A) ^ (i + 1)))"
proof -
  have h1: "terminal_growth_rate gdcf_A < wacc gdcf_A" and h2: "growth_rates gdcf_A \<noteq> []"
    and h3: "wacc gdcf_A \<noteq> - 1" and h4: "0 < shares_outstanding gdcf_A"
    by (simp_all add: gdcf_A_def)
  from scalar_projected_sequence [OF h1 h2 h3 h4] h1 h2 h3 h4 show ?thesis
    by (intro conjI)
qed

text \<open>
  Claim C4. In the scalar variant, for valid inputs, the enterprise value is the sum of
  the present values of the projected flows plus the present value of the terminal value,
  the equity value is the enterprise value plus cash minus debt, and the value per share
  is the equity value divided by the share count, with no rounding step in between.
\<close>

theorem scalar_roll_up:
  assumes "terminal_growth_rate d < wacc d" and "growth_rates d \<noteq> []"
    and "wacc d \<noteq> - 1" and "0 < shares_outstanding d"
  shows "\<exists>printed v. calc d = Inr (printed, ReturnDict v)
      \<and> projected_fcfs v = project_loop [] (current_fcf d) (growth_rates d)
      \<and> present_value_of_fcfs v =
          (\<Sum>i<length (projected_fcfs v). projected_fcfs v ! i / (1 + wacc d) ^ (i + 1))
      \<and> terminal_value v =
          last (projected_fcfs v) * (1 + terminal_growth_rate d)
            / (wacc d - terminal_growth_rate d)
      \<and> present_value_of_terminal_value v =
          terminal_value v / (1 + wacc d) ^ length (growth_rates d)
      \<and> enterprise_value v = present_value_of_fcfs v + present_value_of_terminal_value v
      \<and> equity_value v = enterprise_value v + cash_and_equivalents d - total_debt d
      \<and> intrinsic_value_per_share v = equity_value v / shares_outstanding d"
proof -
  from assms have g: "wacc d \<noteq> terminal_growth_rate d" by simp
  show ?thesis
    using assms
    by (simp add: calc_def calc_steps_value [OF assms(3) g assms(2)] Let_def)
qed

text \<open>
  Claim C4 at the example of the source.
\<close>

theorem scalar_roll_up_witness:
  "terminal_growth_rate gdcf_A < wacc gdcf_A \<and> growth_rates gdcf_A \<noteq> []
   \<and> wacc gdcf_A \<noteq> - 1 \<and> 0 < shares_outstanding gdcf_A
   \<and> (\<exists>printed v. calc gdcf_A = Inr (printed, ReturnDict v)
      \<and> projected_fcfs v = project_loop [] (current_fcf gdcf_A) (growth_rates gdcf_A)
      \<and> present_value_of_fcfs v =
          (\<Sum>i<length (projected_fcfs v). projected_fcfs v ! i / (1 + wacc gdcf_A) ^ (i + 1))
      \<and> terminal_value v =
          last (projected_fcfs v) * (1 + terminal_growth_rate gdcf_A)
            / (wacc gdcf_A - terminal_growth_rate gdcf_A)
      \<and> present_value_of_terminal_value v =
          terminal_value v / (1 + wacc gdcf_A) ^ length (growth_rates gdcf_A)
      \<and> enterprise_value v = present_value_of_fcfs v + present_value_of_terminal_value v
      \<and> equity_value v = enterprise_value v + 50 - 20
      \<and> intrinsic_value_per_share v = equity_value v / 100)"
  using scalar_roll_up [of gdcf_A] by (simp add: gdcf_A_def)

text \<open>
  Claim C6. Scenario A: the chain of setters with current flow 100, growth rates
  0.15, 0.10, 0.08, 0.05, 0.03, terminal growth 0.02, discount rate 0.09, cash 50, debt 20
  and 100 shares succeeds, prints nothing, and the calculation returns the projected flows
  115, 126.5, 136.62, 143.451, 147.75453 and the enterprise, equity and per-share values
  that the formulas give at these inputs.
\<close>

theorem scenario_A_result:
  "bind_err scenario_A calc = Inr ([], ReturnDict
       \<lparr>projected_fcfs = [115, 253 / 2, 6831 / 50, 143451 / 1000, 14775453 / 100000],
        present_value_of_fcfs = 7925873956500 / 15386239549,
        terminal_value = 107649729 / 50000,
        present_value_of_terminal_value = 21529945800000 / 15386239549,
        enterprise_value = 270236878500 / 141158161,
        equity_value = 274471623330 / 141158161,
        intrinsic_value_per_share = 27447162333 / 1411581610\<rparr>)
   \<and> (7925873956500 / 15386239549 :: rat) =
        115 / (1 + 9 / 100) + (253 / 2) / (1 + 9 / 100) ^ 2 + (6831 / 50) / (1 + 9 / 100) ^ 3
        + (143451 / 1000) / (1 + 9 / 100) ^ 4 + (14775453 / 100000) / (1 + 9 / 100) ^ 5
   \<and> (107649729 / 50000 :: rat) = (14775453 / 100000) * (1 + 2 / 100) / (9 / 100 - 2 / 100)
   \<and> (21529945800000 / 15386239549 :: rat) = (107649729 / 50000) / (1 + 9 / 100) ^ 5
   \<and> (270236878500 / 141158161 :: rat) =
        7925873956500 / 15386239549 + 21529945800000 / 15386239549
   \<and> (274471623330 / 141158161 :: rat) = 270236878500 / 141158161 + 50 - 20
   \<and> (27447162333 / 1411581610 :: rat) = (274471623330 / 141158161) / 100"
  by (simp add: scenario_A_setters calc_A power_divide)

text \<open>
  Claim C7. In the scalar variant, when the share count is zero or negative at the time
  of the calculation and the leading checks pass, the calculation raises nothing and
  returns 0.
\<close>

theorem scalar_zero_shares:
  assumes "terminal_growth_rate d < wacc d" and "growth_rates d \<noteq> []"
    and "wacc d \<noteq> - 1" and "shares_outstanding d \<le> 0"
  shows "calc d = Inr (if current_fcf d \<le> 0 then [fcf_warning] else [], ReturnZero)"
proof -
  from assms have g: "wacc d \<noteq> terminal_growth_rate d" by simp
  show ?thesis
    using assms
    by (simp add: calc_def calc_steps_value [OF assms(3) g assms(2)] Let_def)
qed

text \<open>
  Claim C7 at the example of the source with the share count overwritten by 0.
\<close>

theorem scalar_zero_shares_witness:
  "terminal_growth_rate gdcf_zero_shares < wacc gdcf_zero_shares
   \<and> growth_rates gdcf_zero_shares \<noteq> [] \<and> wacc gdcf_zero_shares \<noteq> - 1
   \<and> shares_outstanding gdcf_zero_shares \<le> 0
   \<and> calc gdcf_zero_shares = Inr ([], ReturnZero)"
  using scalar_zero_shares [of gdcf_zero_shares]
  by (simp add: gdcf_zero_shares_def gdcf_A_def)

text \<open>
  Claim C10. In the scalar variant, an empty list of growth rates makes the calculation
  raise in its leading checks, before any projection; and when the leading checks pass,
  the list of projected flows is not empty where its last element is read, so that read
  succeeds and the calculation never raises \<^verbatim>\<open>IndexError\<close>.
\<close>

theorem scalar_empty_growth_rates:
  "(growth_rates d = [] \<longrightarrow>
      calc d = Inl (if wacc d \<le> terminal_growth_rate d then wacc_error else empty_rates_error))
   \<and> (terminal_growth_rate d < wacc d \<and> growth_rates d \<noteq> [] \<longrightarrow>
        project_loop [] (current_fcf d) (growth_rates d) \<noteq> []
        \<and> py_last (project_loop [] (current_fcf d) (growth_rates d)) =
            Inr (last (project_loop [] (current_fcf d) (growth_rates d)))
        \<and> calc d \<noteq> Inl IndexError)"
proof (intro conjI impI)
  assume "growth_rates d = []"
  then show "calc d = Inl (if wacc d \<le> terminal_growth_rate d then wacc_error else empty_rates_error)"
    by (simp add: calc_def)
next
  assume a: "terminal_growth_rate d < wacc d \<and> growth_rates d \<noteq> []"
  then show "project_loop [] (current_fcf d) (growth_rates d) \<noteq> []"
    by (simp add: project_loop_nonempty)
  from a show "py_last (project_loop [] (current_fcf d) (growth_rates d)) =
            Inr (last (project_loop [] (current_fcf d) (growth_rates d)))"
    by (simp add: py_last_project_loop)
  show "calc d \<noteq> Inl IndexError"
  proof (cases "wacc d = - 1")
    case False
    from a have g: "wacc d \<noteq> terminal_growth_rate d" by simp
    show ?thesis
      using a by (simp add: calc_def calc_steps_value [OF False g] Let_def)
  next
    case True
    obtain g gs where gs: "growth_rates d = g # gs"
      using a by (cases "growth_rates d") auto
    have "calc_steps d = Inl ZeroDivisionError"
      by (simp add: calc_steps_def gs True project_loop_Cons py_truediv_def Let_def
          del: project_loop.simps(2))
    then show ?thesis
      using a by (simp add: calc_def)
  qed
qed

text \<open>
  Claim C10 at the fresh object, whose list of growth rates is empty, and at the example
  of the source.
\<close>

theorem scalar_empty_growth_rates_witness:
  "growth_rates gdcf_init = [] \<and> calc gdcf_init = Inl empty_rates_error
   \<and> terminal_growth_rate gdcf_A < wacc gdcf_A \<and> growth_rates gdcf_A \<noteq> []
   \<and> project_loop [] (current_fcf gdcf_A) (growth_rates gdcf_A) \<noteq> []
   \<and> py_last (project_loop [] (current_fcf gdcf_A) (growth_rates gdcf_A)) =
        Inr (14775453 / 100000)
   \<and> calc gdcf_A \<noteq> Inl IndexError"
proof -
  have a: "growth_rates gdcf_init = []" and b: "\<not> wacc gdcf_init \<le> terminal_growth_rate gdcf_init"
    by (simp_all add: gdcf_init_def)
  have c: "terminal_growth_rate gdcf_A < wacc gdcf_A \<and> growth_rates gdcf_A \<noteq> []"
    by (simp add: gdcf_A_def)
  show ?thesis
    using scalar_empty_growth_rates [of gdcf_init] scalar_empty_growth_rates [of gdcf_A] a b c
    by (simp add: project_A)
qed

text \<open>
  Claim C8. The setters of the scalar variant reject, with a \<^verbatim>\<open>ValueError\<close> and
  without storing anything, a current flow that is not a number or is negative, growth
  rates that are not a list of numbers, a terminal growth rate that is not a number, a
  discount rate that is not a number or lies outside the open interval from 0 to 1, cash
  or debt that is not a number or is negative, and a share count that is not a number or is
  not positive. A current flow that is zero or negative when the calculation runs only
  prints the warning, and the calculation goes on to its result.
\<close>

theorem scalar_validation:
  "(\<not> is_number v1 \<or> num_of v1 < 0 \<longrightarrow>
      set_current_fcf v1 self = Inl (ValueError ''Current FCF must be a non-negative number.''))
   \<and> (\<not> is_list v2 \<or> \<not> list_all is_number (items_of v2) \<longrightarrow>
      set_growth_rates v2 self = Inl (ValueError ''Growth rates must be a list of numbers.''))
   \<and> (\<not> is_number v3 \<longrightarrow>
      set_terminal_growth_rate v3 self = Inl (ValueError ''Terminal growth rate must be a number.''))
   \<and> (\<not> is_number v4 \<or> num_of v4 \<le> 0 \<or> 1 \<le> num_of v4 \<longrightarrow>
      set_wacc v4 self = Inl (ValueError ''WACC must be a number between 0 and 1 (exclusive).''))
   \<and> (\<not> is_number v5 \<or> num_of v5 < 0 \<longrightarrow>
      set_cash_and_equivalents v5 self =
        Inl (ValueError ''Cash and equivalents must be a non-negative number.''))
   \<and> (\<not> is_number v6 \<or> num_of v6 < 0 \<longrightarrow>
      set_total_debt v6 self = Inl (ValueError ''Total debt must be a non-negative number.''))
   \<and> (\<not> is_number v7 \<or> num_of v7 \<le> 0 \<longrightarrow>
      set_shares_outstanding v7 self =
        Inl (ValueError ''Shares outstanding must be a positive number.''))
   \<and> (current_fcf d \<le> 0 \<and> terminal_growth_rate d < wacc d \<and> growth_rates d \<noteq> []
        \<and> wacc d \<noteq> - 1 \<longrightarrow>
      (\<exists>res. calc_steps d = Inr res \<and> calc d = Inr ([fcf_warning], res)))"
proof -
  have last: "\<exists>res. calc_steps d = Inr res \<and> calc d = Inr ([fcf_warning], res)"
    if "current_fcf d \<le> 0" and "terminal_growth_rate d < wacc d" and "growth_rates d \<noteq> []"
      and "wacc d \<noteq> - 1"
  proof -
    from that have g: "wacc d \<noteq> terminal_growth_rate d" by simp
    show ?thesis
      using that
      by (simp add: calc_def calc_steps_value [OF that(4) g that(3)] Let_def)
  qed
  show ?thesis
    using last
    by (auto simp: set_current_fcf_def set_growth_rates_def set_terminal_growth_rate_def
        set_wacc_def set_cash_and_equivalents_def set_total_debt_def set_shares_outstanding_def)
qed

text \<open>
  Claim C8 at one rejected argument for each setter, and at the example of the source with
  the current flow overwritten by 0.
\<close>

theorem scalar_validation_witness:
  "set_current_fcf (PyNum (- 1)) gdcf_init =
      Inl (ValueError ''Current FCF must be a non-negative number.'')
   \<and> set_current_fcf (PyStr ''100'') gdcf_init =
      Inl (ValueError ''Current FCF must be a non-negative number.'')
   \<and> set_growth_rates (PyList [PyNum (1 / 10), PyStr ''x'']) gdcf_init =
      Inl (ValueError ''Growth rates must be a list of numbers.'')
   \<and> set_terminal_growth_rate PyNone gdcf_init =
      Inl (ValueError ''Terminal growth rate must be a number.'')
   \<and> set_wacc (PyNum 1) gdcf_init =
      Inl (ValueError ''WACC must be a number between 0 and 1 (exclusive).'')
   \<and> set_cash_and_equivalents (PyNum (- 5)) gdcf_init =
      Inl (ValueError ''Cash and equivalents must be a non-negative number.'')
   \<and> set_total_debt (PyNum (- 5)) gdcf_init =
      Inl (ValueError ''Total debt must be a non-negative number.'')
   \<and> set_shares_outstanding (PyNum 0) gdcf_init =
      Inl (ValueError ''Shares outstanding must be a positive number.'')
   \<and> current_fcf gdcf_zero_fcf \<le> 0
   \<and> terminal_growth_rate gdcf_zero_fcf < wacc gdcf_zero_fcf
   \<and> growth_rates gdcf_zero_fcf \<noteq> [] \<and> wacc gdcf_zero_fcf \<noteq> - 1
   \<and> (\<exists>res. calc_steps gdcf_zero_fcf = Inr res \<and> calc gdcf_zero_fcf = Inr ([fcf_warning], res))"
proof -
  have h: "current_fcf gdcf_zero_fcf \<le> 0"
    "terminal_growth_rate gdcf_zero_fcf < wacc gdcf_zero_fcf"
    "growth_rates gdcf_zero_fcf \<noteq> []" "wacc gdcf_zero_fcf \<noteq> - 1"
    by (simp_all add: gdcf_zero_fcf_def gdcf_A_def)
  show ?thesis
    using scalar_validation [where ?v1.0 = "PyNum (- 1)" and self = gdcf_init
        and ?v2.0 = "PyList [PyNum (1 / 10), PyStr ''x'']" and ?v3.0 = PyNone
        and ?v4.0 = "PyNum 1" and ?v5.0 = "PyNum (- 5)" and ?v6.0 = "PyNum (- 5)"
        and ?v7.0 = "PyNum 0" and d = gdcf_zero_fcf]
      scalar_validation [where ?v1.0 = "PyStr ''100''" and self = gdcf_init]
      h
    by simp
qed

section \<open>Properties of the statement-driven variant\<close>

subsection \<open>The forecast loop\<close>

text \<open>
  A forecast year raises only through the division, when the discount rate is \<open>-1\<close>,
  or through the table line, when the first four characters of the date are not an
  integer. The loop over a list of years extended by one year is the loop over the list
  followed by that year.
\<close>

lemma forecast_year_ok:
  assumes "discount \<noteq> - 1" and "year_of env date = Inr y"
  shows "forecast_year env date tax_rate discount egr cgr yr st =
     Inr \<lparr>ebit = ebit st * (1 + of_nat yr * egr),
          non_cash_charges = non_cash_charges st * (1 + of_nat yr * egr),
          cwc = cwc st * (7 / 10),
          cap_ex = cap_ex st * (1 + of_nat yr * cgr),
          flows = flows st @
            [ulFCF (ebit st * (1 + of_nat yr * egr)) tax_rate
               (non_cash_charges st * (1 + of_nat yr * egr)) (cwc st * (7 / 10))
               (cap_ex st * (1 + of_nat yr * cgr)) / (1 + discount) ^ yr]\<rparr>"
proof -
  from assms(1) have "(1 + discount) ^ yr \<noteq> 0"
    by (simp add: add_eq_0_iff)
  then show ?thesis
    using assms(2) by (simp add: forecast_year_def py_truediv_def Let_def)
qed

lemma forecast_loop_append:
  "forecast_loop env date tax_rate discount egr cgr st (xs @ ys) =
     bind_err (forecast_loop env date tax_rate discount egr cgr st xs)
       (\<lambda>st'. forecast_loop env date tax_rate discount egr cgr st' ys)"
proof (induction xs arbitrary: st)
  case Nil
  show ?case by simp
next
  case (Cons x xs)
  show ?case
    by (cases "forecast_year env date tax_rate discount egr cgr x st") (simp_all add: Cons.IH)
qed

lemma forecast_loop_snoc:
  "forecast_loop env date tax_rate discount egr cgr st (xs @ [yr]) =
     bind_err (forecast_loop env date tax_rate discount egr cgr st xs)
       (forecast_year env date tax_rate discount egr cgr yr)"
proof -
  have "forecast_loop env date tax_rate discount egr cgr s [yr] =
      forecast_year env date tax_rate discount egr cgr yr s" for s
    by (cases "forecast_year env date tax_rate discount egr cgr yr s") simp_all
  then show ?thesis
    by (simp add: forecast_loop_append)
qed

lemma forecast_loop_ok:
  assumes "discount \<noteq> - 1" and "year_of env date = Inr y"
  shows "\<exists>st'. forecast_loop env date tax_rate discount egr cgr st yrs = Inr st'
      \<and> length (flows st') = length (flows st) + length yrs"
proof (induction yrs arbitrary: st)
  case Nil
  show ?case by simp
next
  case (Cons yr yrs)
  obtain s1 where s1: "forecast_year env date tax_rate discount egr cgr yr st = Inr s1"
    and len: "length (flows s1) = length (flows st) + 1"
    using forecast_year_ok [OF assms, of tax_rate egr cgr yr st] by simp
  from Cons.IH [of s1] obtain st' where
    "forecast_loop env date tax_rate discount egr cgr s1 yrs = Inr st'"
    "length (flows st') = length (flows s1) + length yrs"
    by blast
  with s1 len show ?case by simp
qed

lemma take_forecast_years:
  "int k \<le> period \<Longrightarrow> take k (forecast_years period) = [1..<k + 1]"
proof -
  assume "int k \<le> period"
  then have "1 + k \<le> nat period + 1" by simp
  then have "take k [1..<nat period + 1] = [1..<1 + k]"
    by (rule take_upt)
  then show ?thesis
    by (simp add: forecast_years_def add.commute del: upt_Suc)
qed

lemma length_forecast_years: "length (forecast_years period) = nat period"
  by (simp add: forecast_years_def)

lemma forecast_years_snoc:
  assumes "1 \<le> period"
  shows "forecast_years period = [1..<nat period] @ [nat period]"
proof -
  from assms have "1 \<le> nat period" by simp
  then have "[1..<Suc (nat period)] = [1..<nat period] @ [nat period]"
    by simp
  then show ?thesis
    by (simp add: forecast_years_def)
qed

subsection \<open>The example of statements, evaluated\<close>

lemma ex_base: "base_year_inputs env_ex income_ex cashflow_ex balance_ex = Inr (1/5, 10, 10, -10, PyStr ''2020-12-31'')"
  by (simp add: base_year_inputs_def item_float_def py_index_def py_getitem_def income_ex_def cashflow_ex_def balance_ex_def py_truediv_def)

lemma ex_ebit: "read_ebit env_ex income_ex = ([], Inr 100)"
  by (simp add: read_ebit_def py_index_def py_getitem_def income_ex_def)

lemma ex_year: "year_of env_ex (PyStr ''2020-12-31'') = Inr 2020"
  by (simp add: env_ex_def)

lemma ex_years: "forecast_years 2 = [1, 2]"
  by (simp add: forecast_years_def upt_rec)

lemma ex_loop: "forecast_loop env_ex (PyStr ''2020-12-31'') (1/5) (1/10) (1/20) (1/25) \<lparr>ebit = 100, non_cash_charges = 10, cwc = 10, cap_ex = -10, flows = []\<rparr> (forecast_years 2) = 
  Inr \<lparr>ebit = 231 / 2, non_cash_charges = 231 / 20, cwc = 49 / 10,
        cap_ex = - (1404 / 125), flows = [911 / 11, 48809 / 605]\<rparr>"
  unfolding ex_years
  by (simp add: forecast_year_ok [OF _ ex_year] ulFCF_def power_divide)

lemma ex_value:
  "value_from_ebit env_ex income_ex cashflow_ex balance_ex 2 (1 / 10) (1 / 20) (1 / 25) g 100 =
     roll_up [911 / 11, 48809 / 605] 2 (1 / 10) g"
  by (simp add: value_from_ebit_def ex_base ex_loop)

lemma ex_evc:
  "enterprise_value_calculation env_ex income_ex cashflow_ex balance_ex 2 (1 / 10) (1 / 20)
     (1 / 25) g = ([], roll_up [911 / 11, 48809 / 605] 2 (1 / 10) g)"
  by (simp add: enterprise_value_calculation_def ex_ebit ex_value)

subsection \<open>Reading the base-year EBIT\<close>

lemma read_ebit_truthy:
  assumes "py_index income_statement 0 = Inr r" and "r ''EBIT'' = Some v" and "truthy v"
  shows "read_ebit env income_statement = ([], py_float env v)"
  using assms by (simp add: read_ebit_def py_getitem_def)

lemma read_ebit_falsy:
  assumes "py_index income_statement 0 = Inr r" and "r ''EBIT'' = Some v" and "\<not> truthy v"
    and "r ''date'' = Some dt"
  shows "read_ebit env income_statement =
     ([ebit_prompt env dt], py_float env (PyStr (input_fn env (ebit_prompt env dt))))"
  using assms by (simp add: read_ebit_def py_getitem_def)

subsection \<open>Equal discount and growth rates\<close>

text \<open>
  With the discount rate equal to the perpetual growth rate, the roll-up always raises:
  on an empty \<^verbatim>\<open>flows\<close> by the read of its last element, otherwise by the division
  by zero.
\<close>

lemma roll_up_equal_rates: "\<exists>e. roll_up fl period r r = Inl e"
  by (cases fl) (simp_all add: roll_up_def terminal_value_of_flows_def py_last_def py_truediv_def Let_def)

lemma bind_err_raises: "(\<And>x. \<exists>e. f x = Inl e) \<Longrightarrow> \<exists>e. bind_err m f = Inl e"
  by (cases m) simp_all

lemma value_from_ebit_equal_rates:
  "\<exists>e. value_from_ebit env income_statement cf bs period r egr cgr r ebit0 = Inl e"
  unfolding value_from_ebit_def
  by (intro bind_err_raises) (auto simp: roll_up_equal_rates intro!: bind_err_raises)

subsection \<open>Claims about the statement-driven variant\<close>

text \<open>
  Claim C5. In the statement-driven variant, when no forecast year raises (the discount
  rate is not \<open>-1\<close> and the date starts with a year), for every year \<open>yr\<close> from 1 to
  the forecast period the iteration for \<open>yr\<close> takes the running quantities \<open>prev\<close>
  left by the iterations before it to \<open>cur\<close>, where EBIT and the non-cash charges are
  multiplied by \<open>1 + yr * earnings_growth_rate\<close>, the working-capital change by the
  constant 7/10, capital expenditure by \<open>1 + yr * cap_ex_growth_rate\<close>, the unlevered
  free cash flow of the year is \<open>ebit * (1 - tax_rate) + non_cash_charges + cwc + cap_ex\<close>
  of the new quantities, and the value appended to \<^verbatim>\<open>flows\<close> is that flow divided by
  \<open>(1 + discount) ^ yr\<close>.
\<close>

theorem statement_yearly_update:
  assumes "discount \<noteq> - 1" and "year_of env date = Inr y"
    and "1 \<le> yr" and "int yr \<le> period"
  shows "\<exists>prev cur.
      forecast_loop env date tax_rate discount egr cgr st0 (take (yr - 1) (forecast_years period))
        = Inr prev
    \<and> forecast_loop env date tax_rate discount egr cgr st0 (take yr (forecast_years period))
        = Inr cur
    \<and> forecast_years period ! (yr - 1) = yr
    \<and> ebit cur = ebit prev * (1 + of_nat yr * egr)
    \<and> non_cash_charges cur = non_cash_charges prev * (1 + of_nat yr * egr)
    \<and> cwc cur = cwc prev * (7 / 10)
    \<and> cap_ex cur = cap_ex prev * (1 + of_nat yr * cgr)
    \<and> ulFCF (ebit cur) tax_rate (non_cash_charges cur) (cwc cur) (cap_ex cur) =
        ebit cur * (1 - tax_rate) + non_cash_charges cur + cwc cur + cap_ex cur
    \<and> flows cur = flows prev @
        [(ebit cur * (1 - tax_rate) + non_cash_charges cur + cwc cur + cap_ex cur)
           / (1 + discount) ^ yr]"
proof -
  from assms(3,4) have le: "int (yr - 1) \<le> period" by simp
  have before: "take (yr - 1) (forecast_years period) = [1..<yr]"
    using take_forecast_years [OF le] assms(3) by simp
  have upto: "take yr (forecast_years period) = [1..<yr] @ [yr]"
    using take_forecast_years [OF assms(4)] assms(3) by simp
  have nth: "forecast_years period ! (yr - 1) = yr"
    using assms(3,4) by (simp add: forecast_years_def nth_append del: upt_Suc)
  obtain prev where prev:
    "forecast_loop env date tax_rate discount egr cgr st0 [1..<yr] = Inr prev"
    using forecast_loop_ok [OF assms(1,2), of tax_rate egr cgr st0 "[1..<yr]"] by blast
  have cur: "forecast_loop env date tax_rate discount egr cgr st0 ([1..<yr] @ [yr]) =
      forecast_year env date tax_rate discount egr cgr yr prev"
    unfolding forecast_loop_snoc prev by simp
  show ?thesis
    unfolding before upto cur prev
    using nth by (simp add: forecast_year_ok [OF assms(1,2)] ulFCF_def)
qed

text \<open>
  Claim C5 at the second year of the example of statements.
\<close>

theorem statement_yearly_update_witness:
  "(1 / 10 :: rat) \<noteq> - 1 \<and> year_of env_ex (PyStr ''2020-12-31'') = Inr 2020
   \<and> (1::nat) \<le> 2 \<and> int 2 \<le> 2
   \<and> (\<exists>prev cur.
      forecast_loop env_ex (PyStr ''2020-12-31'') (1 / 5) (1 / 10) (1 / 20) (1 / 25) st_ex
        (take (2 - 1) (forecast_years 2)) = Inr prev
    \<and> forecast_loop env_ex (PyStr ''2020-12-31'') (1 / 5) (1 / 10) (1 / 20) (1 / 25) st_ex
        (take 2 (forecast_years 2)) = Inr cur
    \<and> forecast_years 2 ! (2 - 1) = 2
    \<and> ebit cur = ebit prev * (1 + of_nat 2 * (1 / 20))
    \<and> non_cash_charges cur = non_cash_charges prev * (1 + of_nat 2 * (1 / 20))
    \<and> cwc cur = cwc prev * (7 / 10)
    \<and> cap_ex cur = cap_ex prev * (1 + of_nat 2 * (1 / 25))
    \<and> ulFCF (ebit cur) (1 / 5) (non_cash_charges cur) (cwc cur) (cap_ex cur) =
        ebit cur * (1 - 1 / 5) + non_cash_charges cur + cwc cur + cap_ex cur
    \<and> flows cur = flows prev @
        [(ebit cur * (1 - 1 / 5) + non_cash_charges cur + cwc cur + cap_ex cur)
           / (1 + 1 / 10) ^ 2])"
proof -
  have h1: "(1 / 10 :: rat) \<noteq> - 1" and h3: "(1::nat) \<le> 2" and h4: "int 2 \<le> 2"
    by simp_all
  from statement_yearly_update [OF h1 ex_year h3 h4] h1 ex_year h3 h4 show ?thesis
    by (intro conjI)
qed

text \<open>
  Claim C2, as the source has it. In the statement-driven variant the list
  \<^verbatim>\<open>flows\<close> holds the present values of the yearly flows and nothing else; its last
  element is the final year's flow divided by \<open>(1 + discount) ^ period\<close>. The terminal
  value is that discounted last element times \<open>1 + growth\<close> over
  \<open>discount - growth\<close>, its present value is the terminal value divided by
  \<open>(1 + discount) ^ (1 + period)\<close>, and the function returns that present value plus
  the sum of \<^verbatim>\<open>flows\<close>.
\<close>

theorem statement_terminal_value:
  assumes "read_ebit env income_statement = (prompts, Inr ebit0)"
    and "base_year_inputs env income_statement cashflow_statement balance_statement =
           Inr (tax_rate, ncc0, cwc0, cap_ex0, date)"
    and "year_of env date = Inr y"
    and "1 \<le> period" and "discount \<noteq> - 1" and "discount \<noteq> growth"
  shows "\<exists>st.
      forecast_loop env date tax_rate discount egr cgr
        \<lparr>ebit = ebit0, non_cash_charges = ncc0, cwc = cwc0, cap_ex = cap_ex0, flows = []\<rparr>
        (forecast_years period) = Inr st
    \<and> length (flows st) = nat period
    \<and> last (flows st) =
        ulFCF (ebit st) tax_rate (non_cash_charges st) (cwc st) (cap_ex st)
          / (1 + discount) ^ nat period
    \<and> terminal_value_of_flows (flows st) discount growth =
        Inr (last (flows st) * (1 + growth) / (discount - growth))
    \<and> enterprise_value_calculation env income_statement cashflow_statement balance_statement
        period discount egr cgr growth =
        (prompts,
         Inr (last (flows st) * (1 + growth) / (discount - growth)
                / (1 + discount) ^ nat (1 + period)
              + sum_list (flows st)))"
proof -
  let ?st0 = "\<lparr>ebit = ebit0, non_cash_charges = ncc0, cwc = cwc0, cap_ex = cap_ex0, flows = []\<rparr>"
  obtain prev where prev:
    "forecast_loop env date tax_rate discount egr cgr ?st0 [1..<nat period] = Inr prev"
    using forecast_loop_ok [OF assms(5,3), of tax_rate egr cgr ?st0 "[1..<nat period]"] by blast
  obtain st where st:
    "forecast_loop env date tax_rate discount egr cgr ?st0 (forecast_years period) = Inr st"
    and len: "length (flows st) = length (flows ?st0) + length (forecast_years period)"
    using forecast_loop_ok [OF assms(5,3), of tax_rate egr cgr ?st0 "forecast_years period"]
    by blast
  have "forecast_loop env date tax_rate discount egr cgr ?st0 (forecast_years period) =
      forecast_year env date tax_rate discount egr cgr (nat period) prev"
    unfolding forecast_years_snoc [OF assms(4)] forecast_loop_snoc prev by simp
  with st have step: "forecast_year env date tax_rate discount egr cgr (nat period) prev = Inr st"
    by simp
  have last: "last (flows st) =
      ulFCF (ebit st) tax_rate (non_cash_charges st) (cwc st) (cap_ex st)
        / (1 + discount) ^ nat period"
    using step unfolding forecast_year_ok [OF assms(5,3)] by auto
  have n: "length (flows st) = nat period"
    using len by (simp add: length_forecast_years)
  with assms(4) have ne: "flows st \<noteq> []" by auto
  have nz: "1 + discount \<noteq> 0"
    using assms(5) by (simp add: add_eq_0_iff)
  have roll: "roll_up (flows st) period discount growth =
      Inr (last (flows st) * (1 + growth) / (discount - growth)
             / (1 + discount) ^ nat (1 + period) + sum_list (flows st))"
    using ne nz assms(6)
    by (simp add: roll_up_def terminal_value_of_flows_def py_last_def py_truediv_def Let_def split: list.splits)
  have "enterprise_value_calculation env income_statement cashflow_statement balance_statement
        period discount egr cgr growth =
        (prompts,
         Inr (last (flows st) * (1 + growth) / (discount - growth)
                / (1 + discount) ^ nat (1 + period) + sum_list (flows st)))"
    by (simp add: enterprise_value_calculation_def value_from_ebit_def assms(1,2) st roll)
  moreover have "terminal_value_of_flows (flows st) discount growth =
      Inr (last (flows st) * (1 + growth) / (discount - growth))"
    using ne assms(6)
    by (simp add: terminal_value_of_flows_def py_last_def py_truediv_def Let_def
        split: list.splits)
  ultimately show ?thesis
    using st n last by blast
qed

text \<open>
  Claim C2, as the source has it, at the example of statements with a forecast of two
  years.
\<close>

theorem statement_terminal_value_witness:
  "read_ebit env_ex income_ex = ([], Inr 100)
   \<and> base_year_inputs env_ex income_ex cashflow_ex balance_ex =
        Inr (1 / 5, 10, 10, - 10, PyStr ''2020-12-31'')
   \<and> year_of env_ex (PyStr ''2020-12-31'') = Inr 2020
   \<and> (1::int) \<le> 2 \<and> (1 / 10 :: rat) \<noteq> - 1 \<and> (1 / 10 :: rat) \<noteq> 1 / 50
   \<and> (\<exists>st.
      forecast_loop env_ex (PyStr ''2020-12-31'') (1 / 5) (1 / 10) (1 / 20) (1 / 25)
        \<lparr>ebit = 100, non_cash_charges = 10, cwc = 10, cap_ex = - 10, flows = []\<rparr>
        (forecast_years 2) = Inr st
    \<and> length (flows st) = nat 2
    \<and> last (flows st) =
        ulFCF (ebit st) (1 / 5) (non_cash_charges st) (cwc st) (cap_ex st)
          / (1 + 1 / 10) ^ nat 2
    \<and> terminal_value_of_flows (flows st) (1 / 10) (1 / 50) =
        Inr (last (flows st) * (1 + 1 / 50) / (1 / 10 - 1 / 50))
    \<and> enterprise_value_calculation env_ex income_ex cashflow_ex balance_ex
        2 (1 / 10) (1 / 20) (1 / 25) (1 / 50) =
        ([],
         Inr (last (flows st) * (1 + 1 / 50) / (1 / 10 - 1 / 50)
                / (1 + 1 / 10) ^ nat (1 + 2)
              + sum_list (flows st))))"
proof -
  have h4: "(1::int) \<le> 2" and h5: "(1 / 10 :: rat) \<noteq> - 1"
    and h6: "(1 / 10 :: rat) \<noteq> 1 / 50"
    by simp_all
  have b: "base_year_inputs env_ex income_ex cashflow_ex balance_ex =
        Inr (1 / 5, 10, 10, - 10, PyStr ''2020-12-31'')"
    using ex_base by simp
  from statement_terminal_value [OF ex_ebit b ex_year h4 h5 h6] ex_ebit b ex_year h4 h5 h6
  show ?thesis
    by (intro conjI)
qed

text \<open>
  Claim C2 as stated fails: at the example of statements with a forecast of two years the
  final year's undiscounted flow is 48809/500, and the value returned differs from the
  one that the terminal value of the specification, computed from that undiscounted
  flow, would give.
\<close>

theorem statement_terminal_value_counterexample:
  "forecast_loop env_ex (PyStr ''2020-12-31'') (1 / 5) (1 / 10) (1 / 20) (1 / 25)
      \<lparr>ebit = 100, non_cash_charges = 10, cwc = 10, cap_ex = - 10, flows = []\<rparr>
      (forecast_years 2) =
      Inr \<lparr>ebit = 231 / 2, non_cash_charges = 231 / 20, cwc = 49 / 10,
           cap_ex = - (1404 / 125), flows = [911 / 11, 48809 / 605]\<rparr>
   \<and> ulFCF (231 / 2) (1 / 5) (231 / 20) (49 / 10) (- (1404 / 125)) = 48809 / 500
   \<and> terminal_value_of_flows [911 / 11, 48809 / 605] (1 / 10) (1 / 50) = Inr (2489259 / 2420)
   \<and> (2489259 / 2420 :: rat) \<noteq> spec_terminal_value (48809 / 500) (1 / 50) (1 / 10)
   \<and> enterprise_value_calculation env_ex income_ex cashflow_ex balance_ex
        2 (1 / 10) (1 / 20) (1 / 25) (1 / 50) = ([], Inr (753969284 / 805255))
   \<and> (753969284 / 805255 :: rat) \<noteq>
        spec_terminal_value (48809 / 500) (1 / 50) (1 / 10) / (1 + 1 / 10) ^ (1 + 2)
        + (911 / 11 + 48809 / 605)"
  by (simp add: ex_loop ex_evc ulFCF_def spec_terminal_value_def roll_up_def terminal_value_of_flows_def py_last_def
      py_truediv_def Let_def power_divide)

text \<open>
  Claim C9, as the source has it. In the statement-driven variant, when the base-year
  record has an EBIT item whose value is true in the sense of Python (not null, not zero,
  not empty), no prompt is issued and EBIT is the float of that value; when the record has
  an EBIT item whose value is not true and has a date, exactly one prompt is issued, it
  names the date, and EBIT is the float of the line entered.
\<close>

theorem statement_ebit_source:
  "(py_index income_statement 0 = Inr r \<and> r ''EBIT'' = Some v \<and> truthy v \<longrightarrow>
      enterprise_value_calculation env income_statement cf bs period d egr cgr g =
        ([], bind_err (py_float env v)
               (value_from_ebit env income_statement cf bs period d egr cgr g)))
   \<and> (py_index income_statement 0 = Inr r \<and> r ''EBIT'' = Some v \<and> \<not> truthy v
        \<and> r ''date'' = Some dt \<longrightarrow>
      enterprise_value_calculation env income_statement cf bs period d egr cgr g =
        ([ebit_prompt env dt],
         bind_err (py_float env (PyStr (input_fn env (ebit_prompt env dt))))
           (value_from_ebit env income_statement cf bs period d egr cgr g))
      \<and> ebit_prompt env dt = ''EBIT missing. Enter EBIT on '' @ py_format env dt @ '' or skip: '')"
  by (simp add: enterprise_value_calculation_def read_ebit_truthy read_ebit_falsy
      ebit_prompt_def)

text \<open>
  Claim C9, as the source has it, at the example of statements and at the same statements
  with a null EBIT.
\<close>

theorem statement_ebit_source_witness:
  "py_index income_ex 0 = Inr (income_ex ! 0) \<and> (income_ex ! 0) ''EBIT'' = Some (PyNum 100)
   \<and> truthy (PyNum 100)
   \<and> enterprise_value_calculation env_ex income_ex cashflow_ex balance_ex 2 (1 / 10) (1 / 20)
        (1 / 25) (1 / 50) =
        ([], bind_err (py_float env_ex (PyNum 100))
               (value_from_ebit env_ex income_ex cashflow_ex balance_ex 2 (1 / 10) (1 / 20)
                  (1 / 25) (1 / 50)))
   \<and> py_index income_null_ebit 0 = Inr (income_null_ebit ! 0)
   \<and> (income_null_ebit ! 0) ''EBIT'' = Some PyNone \<and> \<not> truthy PyNone
   \<and> (income_null_ebit ! 0) ''date'' = Some (PyStr ''2020-12-31'')
   \<and> enterprise_value_calculation env_ex income_null_ebit cashflow_ex balance_ex 2 (1 / 10)
        (1 / 20) (1 / 25) (1 / 50) =
        ([''EBIT missing. Enter EBIT on 2020-12-31 or skip: ''],
         bind_err (Inr 120)
           (value_from_ebit env_ex income_null_ebit cashflow_ex balance_ex 2 (1 / 10) (1 / 20)
              (1 / 25) (1 / 50)))"
proof -
  have a: "py_index income_ex 0 = Inr (income_ex ! 0)"
    and b: "(income_ex ! 0) ''EBIT'' = Some (PyNum 100)" and c: "truthy (PyNum 100)"
    by (simp_all add: py_index_def income_ex_def)
  have a': "py_index income_null_ebit 0 = Inr (income_null_ebit ! 0)"
    and b': "(income_null_ebit ! 0) ''EBIT'' = Some PyNone" and c': "\<not> truthy PyNone"
    and d': "(income_null_ebit ! 0) ''date'' = Some (PyStr ''2020-12-31'')"
    by (simp_all add: py_index_def income_null_ebit_def)
  have p: "ebit_prompt env_ex (PyStr ''2020-12-31'') =
      ''EBIT missing. Enter EBIT on 2020-12-31 or skip: ''"
    by (simp add: ebit_prompt_def)
  have f: "float_of_str env_ex (input_fn env_ex s) = Some 120" for s
    by (simp add: env_ex_def)
  show ?thesis
    using statement_ebit_source [where income_statement = income_ex and r = "income_ex ! 0"
        and v = "PyNum 100" and env = env_ex and cf = cashflow_ex and bs = balance_ex
        and period = 2 and d = "1 / 10" and egr = "1 / 20" and cgr = "1 / 25" and g = "1 / 50"]
      statement_ebit_source [where income_statement = income_null_ebit
        and r = "income_null_ebit ! 0" and v = PyNone and dt = "PyStr ''2020-12-31''"
        and env = env_ex and cf = cashflow_ex and bs = balance_ex
        and period = 2 and d = "1 / 10" and egr = "1 / 20" and cgr = "1 / 25" and g = "1 / 50"]
      a b c a' b' c' d'
    by (simp add: p f)
qed

text \<open>
  Claim C9 as stated fails: when the base-year record has no EBIT item, the lookup raises
  \<^verbatim>\<open>KeyError\<close> and no prompt is issued.
\<close>

theorem statement_ebit_source_counterexample:
  "(income_no_ebit ! 0) ''EBIT'' = None
   \<and> enterprise_value_calculation env_ex income_no_ebit cashflow_ex balance_ex 2 (1 / 10)
        (1 / 20) (1 / 25) (1 / 50) = ([], Inl (KeyError ''EBIT''))"
  by (simp add: enterprise_value_calculation_def read_ebit_def py_index_def py_getitem_def
      income_no_ebit_def)

section \<open>The constraint between discount and growth rate\<close>

text \<open>
  Claim C1, as the source has it. The scalar variant checks the constraint first: whenever
  the discount rate is at most the terminal growth rate, the calculation raises its
  descriptive \<^verbatim>\<open>ValueError\<close>. The statement-driven variant has no such check; with
  the discount rate equal to the perpetual growth rate it never returns a value.
\<close>

theorem discount_above_growth_check:
  "(wacc self \<le> terminal_growth_rate self \<longrightarrow> calc self = Inl wacc_error)
   \<and> (\<exists>e. snd (enterprise_value_calculation env income_statement cf bs period r egr cgr r)
          = Inl e)"
proof -
  have "\<exists>e. snd (enterprise_value_calculation env income_statement cf bs period r egr cgr r)
          = Inl e"
    unfolding enterprise_value_calculation_def
    by (cases "read_ebit env income_statement")
       (simp add: bind_err_raises value_from_ebit_equal_rates)
  then show ?thesis
    by (simp add: calc_def)
qed

text \<open>
  Claim C1, as the source has it, at the example of the source with the discount rate set
  to the terminal growth rate, and at the example of statements with both rates 1/10.
\<close>

theorem discount_above_growth_check_witness:
  "wacc gdcf_equal_rates \<le> terminal_growth_rate gdcf_equal_rates
   \<and> calc gdcf_equal_rates = Inl wacc_error
   \<and> (\<exists>e. snd (enterprise_value_calculation env_ex income_ex cashflow_ex balance_ex 2 (1 / 10)
               (1 / 20) (1 / 25) (1 / 10)) = Inl e)"
proof -
  have h: "wacc gdcf_equal_rates \<le> terminal_growth_rate gdcf_equal_rates"
    by (simp add: gdcf_equal_rates_def gdcf_A_def)
  from discount_above_growth_check [where self = gdcf_equal_rates and env = env_ex
      and income_statement = income_ex and cf = cashflow_ex and bs = balance_ex and period = 2
      and r = "1 / 10" and egr = "1 / 20" and cgr = "1 / 25"] h
  show ?thesis by simp
qed

text \<open>
  Claim C1 as stated fails for the statement-driven variant: with a discount rate of 1/10
  below a growth rate of 1/5 it returns a number, and with both rates 1/10 the exception
  is the \<^verbatim>\<open>ZeroDivisionError\<close> of the division itself.
\<close>

theorem discount_above_growth_check_counterexample:
  "(1 / 10 :: rat) \<le> 1 / 5
   \<and> enterprise_value_calculation env_ex income_ex cashflow_ex balance_ex 2 (1 / 10) (1 / 20)
        (1 / 25) (1 / 5) = ([], Inr (- (454053466 / 805255)))
   \<and> enterprise_value_calculation env_ex income_ex cashflow_ex balance_ex 2 (1 / 10) (1 / 20)
        (1 / 25) (1 / 10) = ([], Inl ZeroDivisionError)"
  by (simp add: ex_evc roll_up_def terminal_value_of_flows_def py_last_def py_truediv_def Let_def power_divide)

end
